theory Spec2Isabelle
  imports Main "HOL-Library.Sublist"
begin

section \<open>Strings and JavaScript values\<close>

text \<open>
  The program is the single React component \<^verbatim>\<open>App\<close> of \<^verbatim>\<open>src/App.tsx\<close>. Its strings are
  modelled as \<^typ>\<open>string\<close>, holding the UTF-8 bytes of the source text: the program only
  concatenates strings, compares them, tests them for emptiness, splits a data URL at commas
  and cuts a window out of an ASCII token, and all of these agree on bytes and on UTF-16 units.
  A value that may be \<^verbatim>\<open>null\<close> or \<^verbatim>\<open>undefined\<close> is an \<^typ>\<open>'a option\<close>.
\<close>

text \<open>Truthiness of a \<^verbatim>\<open>string | null | undefined\<close>: the empty string is falsy.\<close>

definition truthy :: "string option \<Rightarrow> bool" where
  "truthy v = (case v of None \<Rightarrow> False | Some s \<Rightarrow> s \<noteq> [])"

text \<open>\<^verbatim>\<open>v || d\<close> on such a value.\<close>

definition or_else :: "string option \<Rightarrow> string \<Rightarrow> string" where
  "or_else v d = (case v of None \<Rightarrow> d | Some s \<Rightarrow> if s = [] then d else s)"

text \<open>A value interpolated into a template literal: \<^verbatim>\<open>undefined\<close> prints as that word.\<close>

definition template_str :: "string option \<Rightarrow> string" where
  "template_str v = (case v of None \<Rightarrow> ''undefined'' | Some s \<Rightarrow> s)"

text \<open>\<^verbatim>\<open>s.split(c)\<close> for a one-character separator: never empty, \<^verbatim>\<open>''.split(',')\<close> is \<^verbatim>\<open>['']\<close>.\<close>

fun split_js :: "char \<Rightarrow> string \<Rightarrow> string list" where
  "split_js c [] = [[]]"
| "split_js c (x # xs) =
     (if x = c then [] # split_js c xs
      else (case split_js c xs of [] \<Rightarrow> [[x]] | y # ys \<Rightarrow> (x # y) # ys))"

text \<open>\<^verbatim>\<open>xs[1]\<close>: \<^verbatim>\<open>undefined\<close> when the array has fewer than two elements.\<close>

definition index1 :: "'a list \<Rightarrow> 'a option" where
  "index1 xs = (case xs of _ # y # _ \<Rightarrow> Some y | _ \<Rightarrow> None)"

text \<open>\<^verbatim>\<open>s.substr(start, len)\<close> for non-negative arguments.\<close>

definition substr :: "string \<Rightarrow> nat \<Rightarrow> nat \<Rightarrow> string" where
  "substr s start len = take len (drop start s)"

text \<open>A thrown or rejected value; the handlers only read its \<^verbatim>\<open>message\<close>.\<close>

record js_error =
  message :: "string option"

section \<open>Constants\<close>

record preset =
  id_preset :: string
  label :: string
  prompt :: string

text \<open>The labels are Chinese text (the scene labels start with an emoji), given as UTF-8.\<close>

definition SCENES :: "preset list" where
  "SCENES =
    [\<lparr>id_preset = ''city'',
      label = [CHR 0xF0, CHR 0x9F, CHR 0x8F, CHR 0x99, CHR 0xEF, CHR 0xB8, CHR 0x8F] @ '' '' @
        [CHR 0xE5, CHR 0x9F, CHR 0x8E, CHR 0xE5, CHR 0xB8, CHR 0x82, CHR 0xE8, CHR 0xA1, CHR 0x97,
         CHR 0xE9, CHR 0x81, CHR 0x93],
      prompt = ''in a bustling city street with skyscrapers and traffic''\<rparr>,
     \<lparr>id_preset = ''nature'',
      label = [CHR 0xF0, CHR 0x9F, CHR 0x8C, CHR 0xBF] @ '' '' @
        [CHR 0xE8, CHR 0x87, CHR 0xAA, CHR 0xE7, CHR 0x84, CHR 0xB6, CHR 0xE9, CHR 0xA3, CHR 0x8E,
         CHR 0xE5, CHR 0x85, CHR 0x89],
      prompt = ''in a serene natural landscape with mountains and lakes''\<rparr>,
     \<lparr>id_preset = ''ocean'',
      label = [CHR 0xF0, CHR 0x9F, CHR 0x8C, CHR 0x8A] @ '' '' @
        [CHR 0xE6, CHR 0xB5, CHR 0xB7, CHR 0xE6, CHR 0xB4, CHR 0x8B, CHR 0xE6, CHR 0xB2, CHR 0x99,
         CHR 0xE6, CHR 0xBB, CHR 0xA9],
      prompt = ''on a beautiful beach with turquoise water and waves''\<rparr>,
     \<lparr>id_preset = ''space'',
      label = [CHR 0xF0, CHR 0x9F, CHR 0x9A, CHR 0x80] @ '' '' @
        [CHR 0xE5, CHR 0xA4, CHR 0xAA, CHR 0xE7, CHR 0xA9, CHR 0xBA, CHR 0xE5, CHR 0xAE, CHR 0x87,
         CHR 0xE5, CHR 0xAE, CHR 0x99],
      prompt = ''in deep space surrounded by stars and nebulae''\<rparr>,
     \<lparr>id_preset = ''fantasy'',
      label = [CHR 0xF0, CHR 0x9F, CHR 0x8F, CHR 0xB0] @ '' '' @
        [CHR 0xE5, CHR 0xA5, CHR 0x87, CHR 0xE5, CHR 0xB9, CHR 0xBB, CHR 0xE4, CHR 0xB8, CHR 0x96,
         CHR 0xE7, CHR 0x95, CHR 0x8C],
      prompt = ''in a magical fantasy realm with floating islands and mystical creatures''\<rparr>,
     \<lparr>id_preset = ''cyberpunk'',
      label = [CHR 0xF0, CHR 0x9F, CHR 0xA4, CHR 0x96] @ '' '' @
        [CHR 0xE8, CHR 0xB5, CHR 0x9B, CHR 0xE5, CHR 0x8D, CHR 0x9A, CHR 0xE6, CHR 0x9C, CHR 0x8B,
         CHR 0xE5, CHR 0x85, CHR 0x8B],
      prompt = ''in a futuristic cyberpunk city with neon lights and rain''\<rparr>,
     \<lparr>id_preset = ''ancient'',
      label = [CHR 0xF0, CHR 0x9F, CHR 0x8F, CHR 0x9B, CHR 0xEF, CHR 0xB8, CHR 0x8F] @ '' '' @
        [CHR 0xE5, CHR 0x8F, CHR 0xA4, CHR 0xE4, CHR 0xBB, CHR 0xA3, CHR 0xE5, CHR 0x9C, CHR 0xBA,
         CHR 0xE6, CHR 0x99, CHR 0xAF],
      prompt = ''in an ancient historical setting with traditional architecture''\<rparr>,
     \<lparr>id_preset = ''indoor'',
      label = [CHR 0xF0, CHR 0x9F, CHR 0x8F, CHR 0xA0] @ '' '' @
        [CHR 0xE5, CHR 0xAE, CHR 0xA4, CHR 0xE5, CHR 0x86, CHR 0x85, CHR 0xE5, CHR 0x9C, CHR 0xBA,
         CHR 0xE6, CHR 0x99, CHR 0xAF],
      prompt = ''in a cozy and modern indoor living space''\<rparr>]"

definition STYLES :: "preset list" where
  "STYLES =
    [\<lparr>id_preset = ''merged'',
      label = [CHR 0xE5, CHR 0x90, CHR 0x88, CHR 0xE5, CHR 0xB9, CHR 0xB6, CHR 0xE5, CHR 0x9C,
         CHR 0xBA, CHR 0xE6, CHR 0x99, CHR 0xAF],
      prompt = ''seamlessly merged artistic style''\<rparr>,
     \<lparr>id_preset = ''surreal'',
      label = [CHR 0xE8, CHR 0xB6, CHR 0x85, CHR 0xE7, CHR 0x8E, CHR 0xB0, CHR 0xE5, CHR 0xAE,
         CHR 0x9E, CHR 0xE8, CHR 0x89, CHR 0xBA, CHR 0xE6, CHR 0x9C, CHR 0xAF],
      prompt = ''surrealist masterpiece, dreamlike atmosphere''\<rparr>,
     \<lparr>id_preset = ''anime'',
      label = [CHR 0xE5, CHR 0x8A, CHR 0xA8, CHR 0xE6, CHR 0xBC, CHR 0xAB, CHR 0xE9, CHR 0xA3,
         CHR 0x8E, CHR 0xE6, CHR 0xA0, CHR 0xBC],
      prompt = ''high-quality anime illustration style''\<rparr>,
     \<lparr>id_preset = ''cinematic'',
      label = [CHR 0xE7, CHR 0x94, CHR 0xB5, CHR 0xE5, CHR 0xBD, CHR 0xB1, CHR 0xE7, CHR 0xBA,
         CHR 0xA7],
      prompt = ''cinematic lighting, hyper-realistic, 8k resolution''\<rparr>,
     \<lparr>id_preset = ''3d'',
      label = ''3D '' @ [CHR 0xE6, CHR 0xB8, CHR 0xB2, CHR 0xE6, CHR 0x9F, CHR 0x93],
      prompt = ''octane render, 3D digital art, highly detailed''\<rparr>,
     \<lparr>id_preset = ''oil'',
      label = [CHR 0xE6, CHR 0xB2, CHR 0xB9, CHR 0xE7, CHR 0x94, CHR 0xBB],
      prompt = ''classical oil painting texture, expressive brushstrokes''\<rparr>]"

text \<open>
  The messages the handlers show. In the source they are inline literals:
  \<^item> \<open>MSG_MAX_FILES\<close> (line 84): ``at most 6 images can be uploaded'';
  \<^item> \<open>MSG_NEED_INPUT\<close> (line 119): ``enter a description or upload images'';
  \<^item> \<open>MSG_NO_IMAGE\<close> (line 168): ``no image could be generated, please retry'';
  \<^item> \<open>MSG_IMAGE_ERROR\<close> (line 172): ``an error occurred while generating the image'';
  \<^item> \<open>MSG_NO_SCRIPT\<close> (line 201): ``unable to generate the script'';
  \<^item> \<open>MSG_SCRIPT_ERROR\<close> (line 204): ``an error occurred while generating the video script''.
\<close>

definition MSG_MAX_FILES :: string where
  "MSG_MAX_FILES =
    [CHR 0xE6, CHR 0x9C, CHR 0x80, CHR 0xE5, CHR 0xA4, CHR 0x9A, CHR 0xE5, CHR 0x8F, CHR 0xAA,
     CHR 0xE8, CHR 0x83, CHR 0xBD, CHR 0xE4, CHR 0xB8, CHR 0x8A, CHR 0xE4, CHR 0xBC, CHR 0xA0] @
    ''6'' @
    [CHR 0xE5, CHR 0xBC, CHR 0xA0, CHR 0xE5, CHR 0x9B, CHR 0xBE, CHR 0xE7, CHR 0x89, CHR 0x87]"

definition MSG_NEED_INPUT :: string where
  "MSG_NEED_INPUT =
    [CHR 0xE8, CHR 0xAF, CHR 0xB7, CHR 0xE8, CHR 0xBE, CHR 0x93, CHR 0xE5, CHR 0x85, CHR 0xA5,
     CHR 0xE6, CHR 0x8F, CHR 0x8F, CHR 0xE8, CHR 0xBF, CHR 0xB0, CHR 0xE6, CHR 0x88, CHR 0x96,
     CHR 0xE4, CHR 0xB8, CHR 0x8A, CHR 0xE4, CHR 0xBC, CHR 0xA0, CHR 0xE5, CHR 0x9B, CHR 0xBE,
     CHR 0xE7, CHR 0x89, CHR 0x87]"

definition MSG_NO_IMAGE :: string where
  "MSG_NO_IMAGE =
    [CHR 0xE6, CHR 0x9C, CHR 0xAA, CHR 0xE8, CHR 0x83, CHR 0xBD, CHR 0xE7, CHR 0x94, CHR 0x9F,
     CHR 0xE6, CHR 0x88, CHR 0x90, CHR 0xE5, CHR 0x9B, CHR 0xBE, CHR 0xE7, CHR 0x89, CHR 0x87,
     CHR 0xEF, CHR 0xBC, CHR 0x8C, CHR 0xE8, CHR 0xAF, CHR 0xB7, CHR 0xE9, CHR 0x87, CHR 0x8D,
     CHR 0xE8, CHR 0xAF, CHR 0x95]"

definition MSG_IMAGE_ERROR :: string where
  "MSG_IMAGE_ERROR =
    [CHR 0xE7, CHR 0x94, CHR 0x9F, CHR 0xE6, CHR 0x88, CHR 0x90, CHR 0xE5, CHR 0x9B, CHR 0xBE,
     CHR 0xE7, CHR 0x89, CHR 0x87, CHR 0xE6, CHR 0x97, CHR 0xB6, CHR 0xE5, CHR 0x8F, CHR 0x91,
     CHR 0xE7, CHR 0x94, CHR 0x9F, CHR 0xE9, CHR 0x94, CHR 0x99, CHR 0xE8, CHR 0xAF, CHR 0xAF]"

definition MSG_NO_SCRIPT :: string where
  "MSG_NO_SCRIPT =
    [CHR 0xE6, CHR 0x97, CHR 0xA0, CHR 0xE6, CHR 0xB3, CHR 0x95, CHR 0xE7, CHR 0x94, CHR 0x9F,
     CHR 0xE6, CHR 0x88, CHR 0x90, CHR 0xE6, CHR 0x96, CHR 0x87, CHR 0xE6, CHR 0xA1, CHR 0x88]"

definition MSG_SCRIPT_ERROR :: string where
  "MSG_SCRIPT_ERROR =
    [CHR 0xE7, CHR 0x94, CHR 0x9F, CHR 0xE6, CHR 0x88, CHR 0x90, CHR 0xE8, CHR 0xA7, CHR 0x86,
     CHR 0xE9, CHR 0xA2, CHR 0x91, CHR 0xE6, CHR 0x96, CHR 0x87, CHR 0xE6, CHR 0xA1, CHR 0x88,
     CHR 0xE6, CHR 0x97, CHR 0xB6, CHR 0xE5, CHR 0x8F, CHR 0x91, CHR 0xE7, CHR 0x94, CHR 0x9F,
     CHR 0xE9, CHR 0x94, CHR 0x99, CHR 0xE8, CHR 0xAF, CHR 0xAF]"

section \<open>Data model\<close>

text \<open>The browser's \<^verbatim>\<open>File\<close>: the handlers read only its media type (\<^verbatim>\<open>file.type\<close>).\<close>

record jsfile =
  name_file :: string
  type_file :: string

text \<open>
  \<^verbatim>\<open>interface UploadedFile\<close>. The field \<^verbatim>\<open>base64\<close> is declared a string, but it is filled
  with \<^verbatim>\<open>base64.split(',')[1]\<close>, which is \<^verbatim>\<open>undefined\<close> for a data URL without a comma.
\<close>

record UploadedFile =
  id_upload :: string
  file_upload :: jsfile
  preview :: string
  base64 :: "string option"

text \<open>
  The service's content parts, requests and responses (types of the \<^verbatim>\<open>@google/genai\<close>
  package, which is not part of the repository): a part may carry text, inline data, both or
  neither; every field of the response is optional.
\<close>

record blob =
  data :: "string option"
  mimeType :: "string option"

record part =
  text_part :: "string option"
  inlineData :: "blob option"

record content =
  parts :: "part list option"

record candidate =
  content :: "content option"

text \<open>\<open>text_resp\<close> is the response's \<^verbatim>\<open>text\<close> accessor.\<close>

record GenerateContentResponse =
  candidates :: "candidate list option"
  text_resp :: "string option"

datatype contents = Parts "part list" | Prompt string

text \<open>\<open>aspectRatio\<close> is \<^verbatim>\<open>config.imageConfig.aspectRatio\<close>, absent in the script request.\<close>

record request =
  model :: string
  contents :: contents
  aspectRatio :: "string option"

text \<open>
  What the outside world does in one invocation of a generation handler: \<open>construct\<close> is the
  outcome of \<^verbatim>\<open>new GoogleGenAI(...)\<close> (\<open>Some e\<close> when it throws \<open>e\<close>), \<open>generateContent\<close> the
  outcome of the awaited call for the request it is given (\<open>Inl e\<close> when the promise rejects).
\<close>

record service =
  construct :: "js_error option"
  generateContent :: "request \<Rightarrow> js_error + GenerateContentResponse"

text \<open>
  The component's state: one field for each \<^verbatim>\<open>useState\<close> cell the handlers below read or
  write (\<^verbatim>\<open>copied\<close>, which only \<^verbatim>\<open>copyToClipboard\<close> touches, is left out).
\<close>

record app_state =
  files :: "UploadedFile list"
  description :: string
  selectedScene :: string
  selectedStyle :: string
  isGenerating :: bool
  generatedImage :: "string option"
  videoScript :: "string option"
  isGeneratingScript :: bool
  error :: "string option"

definition init :: app_state where
  "init = \<lparr>files = [], description = [], selectedScene = id_preset (SCENES ! 0),
            selectedStyle = id_preset (STYLES ! 0), isGenerating = False,
            generatedImage = None, videoScript = None, isGeneratingScript = False,
            error = None\<rparr>"

section \<open>Upload store\<close>

text \<open>
  One file of a change event, with what the browser answers for it: the outcome of
  \<^verbatim>\<open>fileToBase64\<close> (\<^verbatim>\<open>reader.onerror\<close> rejects, \<^verbatim>\<open>reader.onload\<close> resolves with the data URL),
  the string \<^verbatim>\<open>Math.random().toString(36)\<close> drawn for it, and the URL that
  \<^verbatim>\<open>URL.createObjectURL\<close> returns.
\<close>

record picked =
  pfile :: jsfile
  read_result :: "js_error + string"
  random36 :: string
  object_url :: string

text \<open>The body of the \<^verbatim>\<open>newFiles.map(async (file) => ...)\<close> callback (lines 89--97).\<close>

definition process_file :: "picked \<Rightarrow> js_error + UploadedFile" where
  "process_file p =
     (case read_result p of
        Inl e \<Rightarrow> Inl e
      | Inr url \<Rightarrow>
          Inr \<lparr>id_upload = substr (random36 p) 2 9,
               file_upload = pfile p,
               preview = object_url p,
               base64 = index1 (split_js CHR '','' url)\<rparr>)"

text \<open>
  \<^verbatim>\<open>Promise.all\<close>: rejects as soon as one member rejects, otherwise resolves with the results
  in the order of the input. (Which rejection it reports depends on timing; the handlers
  never look at it.)
\<close>

fun promise_all :: "(js_error + 'a) list \<Rightarrow> js_error + 'a list" where
  "promise_all [] = Inr []"
| "promise_all (x # xs) =
     (case x of
        Inl e \<Rightarrow> Inl e
      | Inr v \<Rightarrow> (case promise_all xs of Inl e \<Rightarrow> Inl e | Inr vs \<Rightarrow> Inr (v # vs)))"

text \<open>
  \<^verbatim>\<open>handleFileChange\<close> is an \<^verbatim>\<open>async\<close> function with one \<^verbatim>\<open>await\<close> (line 88). It runs in two
  steps, and other handlers may run in between.

  \<open>handleFileChange_begin\<close> is the part before the \<^verbatim>\<open>await\<close> (lines 82--86): the capacity
  check, against the \<^verbatim>\<open>files\<close> of the state in which the event arrives. The argument is
  \<^verbatim>\<open>e.target.files\<close>, which may be \<^verbatim>\<open>null\<close>. The second component is the batch whose reads
  were started, \<open>None\<close> when the handler has returned.
\<close>

definition handleFileChange_begin ::
  "app_state \<Rightarrow> picked list option \<Rightarrow> app_state \<times> picked list option" where
  "handleFileChange_begin s fl =
     (let newFiles = (case fl of None \<Rightarrow> [] | Some b \<Rightarrow> b) in
      if length (files s) + length newFiles > 6
      then (s\<lparr>error := Some MSG_MAX_FILES\<rparr>, None)
      else (s, Some newFiles))"

text \<open>
  \<open>handleFileChange_resume\<close> is the part after the \<^verbatim>\<open>await\<close> (lines 88--101), applied to the
  state in which the reads settle: \<^verbatim>\<open>setFiles((prev) => [...prev, ...processedFiles])\<close> appends
  to the store as it is then. \<open>Inl e\<close> is the handler's promise rejecting with \<open>e\<close>; no setter
  has run in that case, so the state stays as it was.
\<close>

definition handleFileChange_resume :: "app_state \<Rightarrow> picked list \<Rightarrow> js_error + app_state" where
  "handleFileChange_resume s newFiles =
     (case promise_all (map process_file newFiles) of
        Inl e \<Rightarrow> Inl e
      | Inr processedFiles \<Rightarrow> Inr (s\<lparr>files := files s @ processedFiles, error := None\<rparr>))"

text \<open>The handler run to completion, no other handler running between its two steps.\<close>

definition handleFileChange :: "app_state \<Rightarrow> picked list option \<Rightarrow> js_error + app_state" where
  "handleFileChange s fl =
     (case handleFileChange_begin s fl of
        (s1, None) \<Rightarrow> Inr s1
      | (s1, Some newFiles) \<Rightarrow> handleFileChange_resume s1 newFiles)"

text \<open>The state after a handler whose promise may have rejected.\<close>

definition state_after :: "app_state \<Rightarrow> js_error + app_state \<Rightarrow> app_state" where
  "state_after s r = (case r of Inl e \<Rightarrow> s | Inr s' \<Rightarrow> s')"

definition removeFile :: "app_state \<Rightarrow> string \<Rightarrow> app_state" where
  "removeFile s i = s\<lparr>files := filter (\<lambda>f. id_upload f \<noteq> i) (files s)\<rparr>"

section \<open>Generation orchestrator\<close>

subsection \<open>Image generation\<close>

text \<open>\<^verbatim>\<open>SCENES.find(s => s.id === selectedScene)?.prompt || ''\<close> and its sibling for the style.\<close>

definition scene_prompt :: "string \<Rightarrow> string" where
  "scene_prompt sel = or_else (map_option prompt (find (\<lambda>s. id_preset s = sel) SCENES)) []"

definition style_prompt :: "string \<Rightarrow> string" where
  "style_prompt sel = or_else (map_option prompt (find (\<lambda>s. id_preset s = sel) STYLES)) []"

text \<open>The template literal of lines 133--136, line breaks and indentation included.\<close>

definition image_prompt :: "app_state \<Rightarrow> string" where
  "image_prompt s =
     ''Create a new creative image based on the following description: '' @ description s @
     ''. '' @ [CHR 0x0A] @ ''      The scene should be '' @ scene_prompt (selectedScene s) @
     ''. '' @ [CHR 0x0A] @ ''      The overall style should be '' @ style_prompt (selectedStyle s) @
     ''. '' @ [CHR 0x0A] @
     ''      If reference images are provided, blend their visual elements, subjects, or color palettes into this new creation.''"

text \<open>The array \<^verbatim>\<open>parts\<close> of lines 138--146.\<close>

definition image_parts :: "app_state \<Rightarrow> part list" where
  "image_parts s =
     \<lparr>text_part = Some (image_prompt s), inlineData = None\<rparr> #
     map (\<lambda>f. \<lparr>text_part = None,
               inlineData = Some \<lparr>data = base64 f, mimeType = Some (type_file (file_upload f))\<rparr>\<rparr>)
         (files s)"

text \<open>The argument of \<^verbatim>\<open>ai.models.generateContent\<close> (lines 148--156).\<close>

definition image_request :: "app_state \<Rightarrow> request" where
  "image_request s =
     \<lparr>model = ''gemini-2.5-flash-image'', contents = Parts (image_parts s),
      aspectRatio = Some ''16:9''\<rparr>"

text \<open>\<^verbatim>\<open>response.candidates?.[0]?.content?.parts || []\<close>.\<close>

definition response_parts :: "GenerateContentResponse \<Rightarrow> part list" where
  "response_parts r =
     (case candidates r of
        None \<Rightarrow> []
      | Some [] \<Rightarrow> []
      | Some (c # _) \<Rightarrow>
          (case content c of
             None \<Rightarrow> []
           | Some k \<Rightarrow> (case parts k of None \<Rightarrow> [] | Some ps \<Rightarrow> ps)))"

text \<open>
  The loop of lines 158--165. Its result is the argument of \<^verbatim>\<open>setGeneratedImage\<close>, \<open>None\<close>
  when the loop ends with \<^verbatim>\<open>foundImage\<close> still false.
\<close>

fun scan_parts :: "part list \<Rightarrow> string option" where
  "scan_parts [] = None"
| "scan_parts (p # ps) =
     (case inlineData p of
        Some b \<Rightarrow> Some (''data:image/png;base64,'' @ template_str (data b))
      | None \<Rightarrow> scan_parts ps)"

text \<open>The \<^verbatim>\<open>catch\<close> and \<^verbatim>\<open>finally\<close> blocks of \<^verbatim>\<open>generateImage\<close> (lines 170--175).\<close>

definition generateImage_catch :: "app_state \<Rightarrow> js_error \<Rightarrow> app_state" where
  "generateImage_catch s err = s\<lparr>error := Some (or_else (message err) MSG_IMAGE_ERROR)\<rparr>"

definition generateImage_finally :: "app_state \<Rightarrow> app_state" where
  "generateImage_finally s = s\<lparr>isGenerating := False\<rparr>"

text \<open>
  \<^verbatim>\<open>generateImage\<close> up to its \<^verbatim>\<open>await\<close> (lines 118--148): validation, the four setters, the
  client, the request. The first argument is the outcome of \<^verbatim>\<open>new GoogleGenAI\<close>. The second
  component of the result is the request sent to the service, \<open>None\<close> when none is sent and
  the handler has returned.
\<close>

definition generateImage_begin :: "js_error option \<Rightarrow> app_state \<Rightarrow> app_state \<times> request option" where
  "generateImage_begin ctor s =
     (if description s = [] \<and> files s = []
      then (s\<lparr>error := Some MSG_NEED_INPUT\<rparr>, None)
      else
        (let s1 = s\<lparr>isGenerating := True, generatedImage := None, videoScript := None,
                    error := None\<rparr>
         in case ctor of
              Some err \<Rightarrow> (generateImage_finally (generateImage_catch s1 err), None)
            | None \<Rightarrow> (s1, Some (image_request s))))"

text \<open>
  \<^verbatim>\<open>generateImage\<close> after its \<^verbatim>\<open>await\<close> (lines 158--175), applied to the state in which the
  call settles.
\<close>

definition generateImage_resume ::
  "app_state \<Rightarrow> js_error + GenerateContentResponse \<Rightarrow> app_state" where
  "generateImage_resume s outcome =
     (case outcome of
        Inl err \<Rightarrow> generateImage_finally (generateImage_catch s err)
      | Inr response \<Rightarrow>
          (case scan_parts (response_parts response) of
             Some uri \<Rightarrow> generateImage_finally (s\<lparr>generatedImage := Some uri\<rparr>)
           | None \<Rightarrow>
               generateImage_finally (generateImage_catch s \<lparr>message = Some MSG_NO_IMAGE\<rparr>)))"

text \<open>
  The handler run to completion against a service, no other handler running between its two
  steps. The second component lists the requests sent over the network.
\<close>

definition generateImage :: "service \<Rightarrow> app_state \<Rightarrow> app_state \<times> request list" where
  "generateImage svc s =
     (case generateImage_begin (construct svc) s of
        (s1, None) \<Rightarrow> (s1, [])
      | (s1, Some req) \<Rightarrow> (generateImage_resume s1 (generateContent svc req), [req]))"

subsection \<open>Script generation\<close>

text \<open>\<^verbatim>\<open>SCENES.find(s => s.id === selectedScene)?.label || ''\<close>.\<close>

definition scene_label :: "string \<Rightarrow> string" where
  "scene_label sel = or_else (map_option label (find (\<lambda>s. id_preset s = sel) SCENES)) []"

text \<open>The template literal of lines 186--194.\<close>

definition script_prompt :: "app_state \<Rightarrow> string" where
  "script_prompt s =
     ''Based on the generated image and the original description '' @ [CHR 0x22] @
     description s @ [CHR 0x22] @ '' in the '' @ scene_label (selectedScene s) @
     '' scene, '' @ [CHR 0x0A] @ ''      generate a detailed 5-second video script. '' @ [CHR 0x0A] @
     ''      The script should include:'' @ [CHR 0x0A] @
     ''      1. Scene Description (Visuals)'' @ [CHR 0x0A] @
     ''      2. Camera Movement'' @ [CHR 0x0A] @
     ''      3. Lighting & Atmosphere'' @ [CHR 0x0A] @
     ''      4. A brief '' @ [CHR 0x22] @ ''Action'' @ [CHR 0x22] @
     '' that happens in these 5 seconds.'' @ [CHR 0x0A] @ ''      '' @ [CHR 0x0A] @
     ''      Format the output in professional cinematic script style using Markdown. Use Chinese.''"

definition script_request :: "app_state \<Rightarrow> request" where
  "script_request s =
     \<lparr>model = ''gemini-3-flash-preview'', contents = Prompt (script_prompt s),
      aspectRatio = None\<rparr>"

text \<open>The \<^verbatim>\<open>catch\<close> and \<^verbatim>\<open>finally\<close> blocks of \<^verbatim>\<open>generateVideoScript\<close> (lines 202--207).\<close>

definition generateVideoScript_catch :: "app_state \<Rightarrow> js_error \<Rightarrow> app_state" where
  "generateVideoScript_catch s err = s\<lparr>error := Some MSG_SCRIPT_ERROR\<rparr>"

definition generateVideoScript_finally :: "app_state \<Rightarrow> app_state" where
  "generateVideoScript_finally s = s\<lparr>isGeneratingScript := False\<rparr>"

text \<open>\<^verbatim>\<open>generateVideoScript\<close> up to its \<^verbatim>\<open>await\<close> (lines 179--196).\<close>

definition generateVideoScript_begin ::
  "js_error option \<Rightarrow> app_state \<Rightarrow> app_state \<times> request option" where
  "generateVideoScript_begin ctor s =
     (if \<not> truthy (generatedImage s) then (s, None)
      else
        (let s1 = s\<lparr>isGeneratingScript := True\<rparr>
         in case ctor of
              Some err \<Rightarrow> (generateVideoScript_finally (generateVideoScript_catch s1 err), None)
            | None \<Rightarrow> (s1, Some (script_request s))))"

text \<open>
  \<^verbatim>\<open>generateVideoScript\<close> after its \<^verbatim>\<open>await\<close> (lines 201--207), applied to the state in which
  the call settles.
\<close>

definition generateVideoScript_resume ::
  "app_state \<Rightarrow> js_error + GenerateContentResponse \<Rightarrow> app_state" where
  "generateVideoScript_resume s outcome =
     (case outcome of
        Inl err \<Rightarrow> generateVideoScript_finally (generateVideoScript_catch s err)
      | Inr response \<Rightarrow>
          generateVideoScript_finally
            (s\<lparr>videoScript := Some (or_else (text_resp response) MSG_NO_SCRIPT)\<rparr>))"

text \<open>The handler run to completion, with the requests it sent.\<close>

definition generateVideoScript :: "service \<Rightarrow> app_state \<Rightarrow> app_state \<times> request list" where
  "generateVideoScript svc s =
     (case generateVideoScript_begin (construct svc) s of
        (s1, None) \<Rightarrow> (s1, [])
      | (s1, Some req) \<Rightarrow> (generateVideoScript_resume s1 (generateContent svc req), [req]))"

section \<open>Scenarios\<close>

text \<open>
  Concrete inputs on which the theorems below are evaluated: two uploads with the description
  ``a robot reading a book'', scene \<^verbatim>\<open>city\<close> and style \<^verbatim>\<open>anime\<close>; service replies with and
  without an inline image; services that answer or fail.
\<close>

definition robot_files :: "UploadedFile list" where
  "robot_files =
     [\<lparr>id_upload = ''4fzyo82mv'',
       file_upload = \<lparr>name_file = ''robot.png'', type_file = ''image/png''\<rparr>,
       preview = ''blob:1'', base64 = Some ''cm9ib3Q=''\<rparr>,
      \<lparr>id_upload = ''k1x9q0c7d'',
       file_upload = \<lparr>name_file = ''book.jpg'', type_file = ''image/jpeg''\<rparr>,
       preview = ''blob:2'', base64 = Some ''Ym9vaw==''\<rparr>]"

definition robot_state :: app_state where
  "robot_state =
     init\<lparr>files := robot_files, description := ''a robot reading a book'',
          selectedScene := ''city'', selectedStyle := ''anime''\<rparr>"

definition pictured_state :: app_state where
  "pictured_state = robot_state\<lparr>generatedImage := Some ''data:image/png;base64,aW1hZ2Ux''\<rparr>"

definition unlisted_state :: app_state where
  "unlisted_state =
     robot_state\<lparr>selectedScene := ''volcano'', selectedStyle := [],
       generatedImage := Some ''data:image/png;base64,aW1hZ2Ux''\<rparr>"

definition image_reply :: GenerateContentResponse where
  "image_reply =
     \<lparr>candidates = Some
        [\<lparr>content = Some \<lparr>parts = Some
           [\<lparr>text_part = Some ''Here is the picture.'', inlineData = None\<rparr>,
            \<lparr>text_part = None,
             inlineData = Some \<lparr>data = Some ''aW1hZ2Ux'', mimeType = Some ''image/png''\<rparr>\<rparr>,
            \<lparr>text_part = None,
             inlineData = Some \<lparr>data = Some ''aW1hZ2Uy'', mimeType = Some ''image/png''\<rparr>\<rparr>]\<rparr>\<rparr>],
      text_resp = Some ''Here is the picture.''\<rparr>"

definition other_reply :: GenerateContentResponse where
  "other_reply =
     \<lparr>candidates = Some
        [\<lparr>content = Some \<lparr>parts = Some
           [\<lparr>text_part = None,
             inlineData = Some \<lparr>data = Some ''bmV3ZXI='', mimeType = Some ''image/png''\<rparr>\<rparr>]\<rparr>\<rparr>],
      text_resp = None\<rparr>"

definition text_reply :: "string option \<Rightarrow> GenerateContentResponse" where
  "text_reply t =
     \<lparr>candidates = Some
        [\<lparr>content = Some \<lparr>parts = Some [\<lparr>text_part = t, inlineData = None\<rparr>]\<rparr>\<rparr>],
      text_resp = t\<rparr>"

definition answering :: "GenerateContentResponse \<Rightarrow> service" where
  "answering r = \<lparr>construct = None, generateContent = (\<lambda>_. Inr r)\<rparr>"

definition failing :: "js_error \<Rightarrow> service" where
  "failing e = \<lparr>construct = None, generateContent = (\<lambda>_. Inl e)\<rparr>"

text \<open>A file the browser reads successfully, with the random string drawn for it.\<close>

definition readable :: "string \<Rightarrow> string \<Rightarrow> picked" where
  "readable n r =
     \<lparr>pfile = \<lparr>name_file = n, type_file = ''image/png''\<rparr>,
      read_result = Inr ''data:image/png;base64,aW1n'',
      random36 = r, object_url = ''blob:'' @ n\<rparr>"

text \<open>A file whose read fails (\<^verbatim>\<open>reader.onerror\<close> fires).\<close>

definition unreadable :: picked where
  "unreadable =
     \<lparr>pfile = \<lparr>name_file = ''gone.png'', type_file = ''image/png''\<rparr>,
      read_result = Inl \<lparr>message = Some ''NotReadableError''\<rparr>,
      random36 = ''0.8a0qk3v1xwp'', object_url = ''blob:gone.png''\<rparr>"

text \<open>Two files whose random strings agree on the nine characters that become the id.\<close>

definition twins :: "picked list" where
  "twins = [readable ''a.png'' ''0.4fzyo82mvyr'', readable ''b.png'' ''0.4fzyo82mvzz'']"

text \<open>Two batches of four files each.\<close>

definition batch_a :: "picked list" where
  "batch_a = [readable ''a1.png'' ''0.1aaaaaaaaa'', readable ''a2.png'' ''0.2aaaaaaaaa'',
              readable ''a3.png'' ''0.3aaaaaaaaa'', readable ''a4.png'' ''0.4aaaaaaaaa'']"

definition batch_b :: "picked list" where
  "batch_b = [readable ''b1.png'' ''0.1bbbbbbbbb'', readable ''b2.png'' ''0.2bbbbbbbbb'',
              readable ''b3.png'' ''0.3bbbbbbbbb'', readable ''b4.png'' ''0.4bbbbbbbbb'']"

text \<open>
  A session in which the user regenerates the image while a script request is still in
  flight: the first image is generated and shown; the user asks for a script; before the
  script arrives the user presses the generate button again; the script arrives; the second
  image arrives.
\<close>

definition first_image_shown :: app_state where
  "first_image_shown = fst (generateImage (answering image_reply) robot_state)"

definition script_in_flight :: app_state where
  "script_in_flight = fst (generateVideoScript_begin None first_image_shown)"

definition regenerating :: app_state where
  "regenerating = fst (generateImage_begin None script_in_flight)"

definition script_settled :: app_state where
  "script_settled =
     generateVideoScript_resume regenerating (Inr (text_reply (Some ''INT. CITY - DAY'')))"

definition second_image_shown :: app_state where
  "second_image_shown = generateImage_resume script_settled (Inr other_reply)"

section \<open>Basic facts\<close>

lemma or_else_None [simp]: "or_else None d = d"
  by (simp add: or_else_def)

lemma or_else_empty [simp]: "or_else (Some t) [] = t"
  by (simp add: or_else_def)

lemma find_SomeD: "find P xs = Some x \<Longrightarrow> P x \<and> x \<in> set xs"
  by (induction xs) (auto split: if_splits)

lemma find_None_image: "x \<notin> f ` set xs \<Longrightarrow> find (\<lambda>s. f s = x) xs = None"
  by (induction xs) auto

lemma find_distinct_key:
  "distinct (map f xs) \<Longrightarrow> p \<in> set xs \<Longrightarrow> find (\<lambda>s. f s = f p) xs = Some p"
  by (induction xs) (auto simp: image_iff)

lemma sublist_skip: "sublist xs ys \<Longrightarrow> sublist xs (a @ ys)"
  unfolding sublist_def by (metis append.assoc)

lemma sublist_here: "sublist xs (xs @ b)"
  unfolding sublist_def by (metis append_Nil)

subsection \<open>The preset tables\<close>

lemma SCENES_distinct: "distinct (map id_preset SCENES)"
  by (simp add: SCENES_def)

lemma STYLES_distinct: "distinct (map id_preset STYLES)"
  by (simp add: STYLES_def)

lemma scene_prompt_member: "p \<in> set SCENES \<Longrightarrow> scene_prompt (id_preset p) = prompt p"
  by (simp add: scene_prompt_def find_distinct_key [OF SCENES_distinct])

lemma style_prompt_member: "p \<in> set STYLES \<Longrightarrow> style_prompt (id_preset p) = prompt p"
  by (simp add: style_prompt_def find_distinct_key [OF STYLES_distinct])

lemma image_prompt_description: "sublist (description s) (image_prompt s)"
  unfolding image_prompt_def by (rule sublist_skip) (rule sublist_here)

lemma image_prompt_scene: "sublist (scene_prompt (selectedScene s)) (image_prompt s)"
  unfolding image_prompt_def
  by (rule sublist_skip, rule sublist_skip, rule sublist_skip, rule sublist_skip,
      rule sublist_skip, rule sublist_here)

lemma image_prompt_style: "sublist (style_prompt (selectedStyle s)) (image_prompt s)"
  unfolding image_prompt_def
  by (rule sublist_skip, rule sublist_skip, rule sublist_skip, rule sublist_skip,
      rule sublist_skip, rule sublist_skip, rule sublist_skip, rule sublist_skip,
      rule sublist_skip, rule sublist_here)

subsection \<open>The response scan\<close>

text \<open>The loop stops at the first part whose \<^verbatim>\<open>inlineData\<close> is present.\<close>

lemma scan_parts_find:
  "scan_parts ps =
     (case find (\<lambda>p. inlineData p \<noteq> None) ps of
        None \<Rightarrow> None
      | Some p \<Rightarrow>
          (case inlineData p of
             None \<Rightarrow> None
           | Some b \<Rightarrow> Some (''data:image/png;base64,'' @ template_str (data b))))"
  by (induction ps) (auto split: option.splits)

subsection \<open>Handlers run to completion\<close>

lemma generateImage_valid:
  assumes "description s \<noteq> [] \<or> files s \<noteq> []" and "construct svc = None"
  shows "generateImage svc s =
     (generateImage_resume
        (s\<lparr>isGenerating := True, generatedImage := None, videoScript := None, error := None\<rparr>)
        (generateContent svc (image_request s)), [image_request s])"
  using assms by (auto simp: generateImage_def generateImage_begin_def Let_def)

lemma generateVideoScript_ready:
  assumes "truthy (generatedImage s)" and "construct svc = None"
  shows "generateVideoScript svc s =
     (generateVideoScript_resume (s\<lparr>isGeneratingScript := True\<rparr>)
        (generateContent svc (script_request s)), [script_request s])"
  using assms by (simp add: generateVideoScript_def generateVideoScript_begin_def)

lemma generateVideoScript_falsy_image:
  "\<not> truthy (generatedImage s) \<Longrightarrow> generateVideoScript svc s = (s, [])"
  by (simp add: generateVideoScript_def generateVideoScript_begin_def)

lemma generateVideoScript_keeps_image:
  "generatedImage (fst (generateVideoScript svc s)) = generatedImage s"
  by (cases "construct svc"; cases "generateContent svc (script_request s)")
     (simp_all add: generateVideoScript_def generateVideoScript_begin_def
        generateVideoScript_resume_def generateVideoScript_finally_def
        generateVideoScript_catch_def)

subsection \<open>Reading a batch\<close>

lemma promise_all_resolves:
  "list_all (\<lambda>x. \<not> isl x) xs \<Longrightarrow> promise_all xs = Inr (map projr xs)"
  by (induction xs) (auto split: sum.splits)

lemma promise_all_rejects:
  "\<not> list_all (\<lambda>x. \<not> isl x) xs \<Longrightarrow> isl (promise_all xs)"
  by (induction xs) (auto split: sum.splits)

lemma process_file_readable:
  "\<not> isl (read_result p) \<Longrightarrow> process_file p =
     Inr \<lparr>id_upload = substr (random36 p) 2 9, file_upload = pfile p,
       preview = object_url p, base64 = index1 (split_js CHR '','' (projr (read_result p)))\<rparr>"
  by (cases "read_result p") (simp_all add: process_file_def)

lemma process_file_isl: "isl (process_file p) = isl (read_result p)"
  by (cases "read_result p") (simp_all add: process_file_def)

lemma handleFileChange_resume_readable:
  assumes "list_all (\<lambda>p. \<not> isl (read_result p)) b"
  shows "handleFileChange_resume s b =
     Inr (s\<lparr>files := files s @
            map (\<lambda>p. \<lparr>id_upload = substr (random36 p) 2 9, file_upload = pfile p,
                      preview = object_url p,
                      base64 = index1 (split_js CHR '','' (projr (read_result p)))\<rparr>) b,
          error := None\<rparr>)"
proof -
  have all: "list_all (\<lambda>x. \<not> isl x) (map process_file b)"
    using assms by (simp add: list_all_iff process_file_isl)
  have "map projr (map process_file b) =
     map (\<lambda>p. \<lparr>id_upload = substr (random36 p) 2 9, file_upload = pfile p,
               preview = object_url p,
               base64 = index1 (split_js CHR '','' (projr (read_result p)))\<rparr>) b"
    using assms by (simp add: list_all_iff process_file_readable)
  then show ?thesis
    by (simp add: handleFileChange_resume_def promise_all_resolves [OF all])
qed

lemma handleFileChange_resume_unreadable:
  assumes "\<not> list_all (\<lambda>p. \<not> isl (read_result p)) b"
  shows "isl (handleFileChange_resume s b)"
proof -
  have "\<not> list_all (\<lambda>x. \<not> isl x) (map process_file b)"
    using assms by (simp add: list_all_iff process_file_isl)
  then have "isl (promise_all (map process_file b))"
    by (rule promise_all_rejects)
  then show ?thesis
    by (cases "promise_all (map process_file b)") (simp_all add: handleFileChange_resume_def)
qed

lemma handleFileChange_within_capacity:
  "length (files s) + length b \<le> 6 \<Longrightarrow>
   handleFileChange s (Some b) = handleFileChange_resume s b"
  by (simp add: handleFileChange_def handleFileChange_begin_def)

subsection \<open>The scenarios\<close>

lemma readable_ok [simp]: "\<not> isl (read_result (readable n r))"
  by (simp add: readable_def)

lemma robot_state_described: "description robot_state \<noteq> []"
  by (simp add: robot_state_def)

lemma robot_state_valid: "description robot_state \<noteq> [] \<or> files robot_state \<noteq> []"
  by (simp add: robot_state_def)

lemma answering_construct: "construct (answering r) = None"
  by (simp add: answering_def)

lemma failing_construct: "construct (failing e) = None"
  by (simp add: failing_def)

section \<open>Image generation: the response scan, the request, validation\<close>

text \<open>
  Claim C1. Whatever the image service answers, \<^verbatim>\<open>generateImage\<close> goes through the parts of
  the response in order and takes the first one that carries inline data: the generation
  result becomes the \<^verbatim>\<open>data:image/png;base64,\<close> URI of that part's data and no error is set.
  When no part carries inline data, the result stays unset and the error is the
  ``no image'' message. (The handler is run to completion on a valid input, the client
  having been constructed, and the service answering \<open>r\<close>.)
\<close>

theorem generateImage_takes_first_inline_part:
  assumes "description s \<noteq> [] \<or> files s \<noteq> []"
    and "construct svc = None"
    and "generateContent svc (image_request s) = Inr r"
  shows "case find (\<lambda>p. inlineData p \<noteq> None) (response_parts r) of
           None \<Rightarrow>
             generatedImage (fst (generateImage svc s)) = None \<and>
             error (fst (generateImage svc s)) = Some MSG_NO_IMAGE
         | Some p \<Rightarrow>
             (case inlineData p of
                None \<Rightarrow> False
              | Some b \<Rightarrow>
                  generatedImage (fst (generateImage svc s)) =
                    Some (''data:image/png;base64,'' @ template_str (data b)) \<and>
                  error (fst (generateImage svc s)) = None)"
proof -
  let ?s1 = "s\<lparr>isGenerating := True, generatedImage := None, videoScript := None, error := None\<rparr>"
  have run: "fst (generateImage svc s) = generateImage_resume ?s1 (Inr r)"
    using assms by (simp add: generateImage_valid)
  show ?thesis
    unfolding run
    by (auto simp: generateImage_resume_def scan_parts_find generateImage_finally_def
        generateImage_catch_def or_else_def MSG_NO_IMAGE_def
        split: option.splits dest: find_SomeD)
qed

theorem generateImage_takes_first_inline_part_witness:
  "description robot_state \<noteq> []
   \<and> construct (answering image_reply) = None
   \<and> generateContent (answering image_reply) (image_request robot_state) = Inr image_reply
   \<and> generatedImage (fst (generateImage (answering image_reply) robot_state)) =
        Some ''data:image/png;base64,aW1hZ2Ux''
   \<and> generatedImage
        (fst (generateImage (answering (text_reply (Some ''no picture''))) robot_state)) = None
   \<and> error (fst (generateImage (answering (text_reply (Some ''no picture''))) robot_state)) =
        Some MSG_NO_IMAGE"
proof -
  note v = robot_state_valid and c = answering_construct
  have g: "generateContent (answering r) (image_request robot_state) = Inr r" for r
    by (simp add: answering_def)
  have a: "generatedImage (fst (generateImage (answering image_reply) robot_state)) =
        Some ''data:image/png;base64,aW1hZ2Ux''"
    using generateImage_takes_first_inline_part [OF v c g, of image_reply]
    by (simp add: image_reply_def response_parts_def template_str_def)
  have b: "generatedImage
        (fst (generateImage (answering (text_reply (Some ''no picture''))) robot_state)) = None
     \<and> error (fst (generateImage (answering (text_reply (Some ''no picture''))) robot_state)) =
        Some MSG_NO_IMAGE"
    using generateImage_takes_first_inline_part [OF v c g, of "text_reply (Some ''no picture'')"]
    by (simp add: text_reply_def response_parts_def)
  show ?thesis using robot_state_described c g a b by blast
qed

text \<open>
  Claim C2. The request that \<^verbatim>\<open>generateImage\<close> sends has one instruction text followed by one
  part for each uploaded file, in the order of the store, carrying the file's stored base64
  payload and its media type. The instruction contains the description, and literally the
  prompt fragment of the selected scene and of the selected style.
\<close>

theorem generateImage_request_contents:
  assumes "description s \<noteq> [] \<or> files s \<noteq> []" and "construct svc = None"
  shows "snd (generateImage svc s) =
           [\<lparr>model = ''gemini-2.5-flash-image'',
             contents = Parts
               (\<lparr>text_part = Some (image_prompt s), inlineData = None\<rparr> #
                map (\<lambda>f. \<lparr>text_part = None,
                          inlineData = Some \<lparr>data = base64 f,
                                             mimeType = Some (type_file (file_upload f))\<rparr>\<rparr>)
                    (files s)),
             aspectRatio = Some ''16:9''\<rparr>]
         \<and> sublist (description s) (image_prompt s)
         \<and> (\<forall>p\<in>set SCENES. id_preset p = selectedScene s \<longrightarrow> sublist (prompt p) (image_prompt s))
         \<and> (\<forall>p\<in>set STYLES. id_preset p = selectedStyle s \<longrightarrow> sublist (prompt p) (image_prompt s))"
proof (intro conjI ballI impI)
  show "snd (generateImage svc s) =
           [\<lparr>model = ''gemini-2.5-flash-image'',
             contents = Parts
               (\<lparr>text_part = Some (image_prompt s), inlineData = None\<rparr> #
                map (\<lambda>f. \<lparr>text_part = None,
                          inlineData = Some \<lparr>data = base64 f,
                                             mimeType = Some (type_file (file_upload f))\<rparr>\<rparr>)
                    (files s)),
             aspectRatio = Some ''16:9''\<rparr>]"
    using assms by (simp add: generateImage_valid image_request_def image_parts_def)
  show "sublist (description s) (image_prompt s)"
    by (rule image_prompt_description)
next
  fix p assume "p \<in> set SCENES" "id_preset p = selectedScene s"
  then show "sublist (prompt p) (image_prompt s)"
    using image_prompt_scene [of s] scene_prompt_member [of p] by simp
next
  fix p assume "p \<in> set STYLES" "id_preset p = selectedStyle s"
  then show "sublist (prompt p) (image_prompt s)"
    using image_prompt_style [of s] style_prompt_member [of p] by simp
qed

theorem generateImage_request_contents_witness:
  "description robot_state \<noteq> []
   \<and> construct (answering image_reply) = None
   \<and> snd (generateImage (answering image_reply) robot_state) =
       [\<lparr>model = ''gemini-2.5-flash-image'',
         contents = Parts
           [\<lparr>text_part = Some (image_prompt robot_state), inlineData = None\<rparr>,
            \<lparr>text_part = None,
             inlineData = Some \<lparr>data = Some ''cm9ib3Q='', mimeType = Some ''image/png''\<rparr>\<rparr>,
            \<lparr>text_part = None,
             inlineData = Some \<lparr>data = Some ''Ym9vaw=='', mimeType = Some ''image/jpeg''\<rparr>\<rparr>],
         aspectRatio = Some ''16:9''\<rparr>]
   \<and> sublist ''a robot reading a book'' (image_prompt robot_state)
   \<and> sublist ''in a bustling city street with skyscrapers and traffic'' (image_prompt robot_state)
   \<and> sublist ''high-quality anime illustration style'' (image_prompt robot_state)"
proof -
  note v = robot_state_valid and c = answering_construct [of image_reply]
  note t = generateImage_request_contents [OF v c]
  have city: "SCENES ! 0 \<in> set SCENES" "id_preset (SCENES ! 0) = ''city''"
    "prompt (SCENES ! 0) = ''in a bustling city street with skyscrapers and traffic''"
    by (simp_all add: SCENES_def)
  have anime: "STYLES ! 2 \<in> set STYLES" "id_preset (STYLES ! 2) = ''anime''"
    "prompt (STYLES ! 2) = ''high-quality anime illustration style''"
    by (simp_all add: STYLES_def)
  have sel: "selectedScene robot_state = ''city''" "selectedStyle robot_state = ''anime''"
    "description robot_state = ''a robot reading a book''" "files robot_state = robot_files"
    by (simp_all add: robot_state_def)
  have 1: "sublist ''in a bustling city street with skyscrapers and traffic''
      (image_prompt robot_state)"
    using t city sel(1) by force
  have 2: "sublist ''high-quality anime illustration style'' (image_prompt robot_state)"
    using t anime sel(2) by force
  have 3: "sublist ''a robot reading a book'' (image_prompt robot_state)"
    using t sel(3) by simp
  have 4: "snd (generateImage (answering image_reply) robot_state) =
       [\<lparr>model = ''gemini-2.5-flash-image'',
         contents = Parts
           [\<lparr>text_part = Some (image_prompt robot_state), inlineData = None\<rparr>,
            \<lparr>text_part = None,
             inlineData = Some \<lparr>data = Some ''cm9ib3Q='', mimeType = Some ''image/png''\<rparr>\<rparr>,
            \<lparr>text_part = None,
             inlineData = Some \<lparr>data = Some ''Ym9vaw=='', mimeType = Some ''image/jpeg''\<rparr>\<rparr>],
         aspectRatio = Some ''16:9''\<rparr>]"
    using t by (simp add: sel(4) robot_files_def)
  show ?thesis using robot_state_described c 1 2 3 4 by blast
qed

text \<open>
  Claim C3. With an empty description and no uploaded file, \<^verbatim>\<open>generateImage\<close> only sets the
  validation message and sends nothing. With a description or at least one file the check
  passes: the handler clears the results and the error, and (the client being constructed)
  sends the request.
\<close>

theorem generateImage_validation:
  "(description s = [] \<and> files s = [] \<longrightarrow>
      generateImage svc s = (s\<lparr>error := Some MSG_NEED_INPUT\<rparr>, []))
   \<and> (description s \<noteq> [] \<or> files s \<noteq> [] \<longrightarrow>
      generateImage_begin None s =
        (s\<lparr>isGenerating := True, generatedImage := None, videoScript := None, error := None\<rparr>,
         Some (image_request s)))"
  by (simp add: generateImage_def generateImage_begin_def)

theorem generateImage_validation_witness:
  "description init = [] \<and> files init = []
   \<and> generateImage (answering image_reply) init = (init\<lparr>error := Some MSG_NEED_INPUT\<rparr>, [])
   \<and> description robot_state \<noteq> []
   \<and> snd (generateImage_begin None robot_state) = Some (image_request robot_state)
   \<and> error (fst (generateImage_begin None robot_state)) = None"
proof -
  have e: "description init = [] \<and> files init = []"
    by (simp add: init_def)
  show ?thesis
    using e robot_state_described generateImage_validation [of init "answering image_reply"]
      generateImage_validation [of robot_state]
    by simp
qed

section \<open>The upload store: capacity and ids\<close>

text \<open>
  Claim C4, as the code has it. A batch that would bring the store above six files is
  rejected as a whole: the capacity message is set and the store is unchanged. A batch that
  fits is then read, and if every file of the batch is read successfully, one entry per file
  is appended in the order of the batch and the error is cleared. An event without a file
  list is an empty batch. (The handler is run to completion.)
\<close>

theorem handleFileChange_capacity_then_reads:
  "(length (files s) + length b > 6 \<longrightarrow>
      handleFileChange s (Some b) = Inr (s\<lparr>error := Some MSG_MAX_FILES\<rparr>))
   \<and> (length (files s) + length b \<le> 6 \<and> list_all (\<lambda>p. \<not> isl (read_result p)) b \<longrightarrow>
      handleFileChange s (Some b) =
        Inr (s\<lparr>files := files s @
               map (\<lambda>p. \<lparr>id_upload = substr (random36 p) 2 9, file_upload = pfile p,
                         preview = object_url p,
                         base64 = index1 (split_js CHR '','' (projr (read_result p)))\<rparr>) b,
             error := None\<rparr>))
   \<and> handleFileChange s None = handleFileChange s (Some [])"
proof (intro conjI impI)
  assume "length (files s) + length b > 6"
  then show "handleFileChange s (Some b) = Inr (s\<lparr>error := Some MSG_MAX_FILES\<rparr>)"
    by (simp add: handleFileChange_def handleFileChange_begin_def)
next
  assume a: "length (files s) + length b \<le> 6 \<and> list_all (\<lambda>p. \<not> isl (read_result p)) b"
  then show "handleFileChange s (Some b) =
        Inr (s\<lparr>files := files s @
               map (\<lambda>p. \<lparr>id_upload = substr (random36 p) 2 9, file_upload = pfile p,
                         preview = object_url p,
                         base64 = index1 (split_js CHR '','' (projr (read_result p)))\<rparr>) b,
             error := None\<rparr>)"
    by (simp add: handleFileChange_within_capacity handleFileChange_resume_readable)
next
  show "handleFileChange s None = handleFileChange s (Some [])"
    by (simp add: handleFileChange_def handleFileChange_begin_def)
qed

theorem handleFileChange_capacity_then_reads_witness:
  "length (files robot_state) + length (batch_a @ batch_b) > 6
   \<and> handleFileChange robot_state (Some (batch_a @ batch_b)) =
       Inr (robot_state\<lparr>error := Some MSG_MAX_FILES\<rparr>)
   \<and> length (files robot_state) + length batch_a \<le> 6
   \<and> list_all (\<lambda>p. \<not> isl (read_result p)) batch_a
   \<and> map id_upload (files (state_after robot_state (handleFileChange robot_state (Some batch_a)))) =
       [''4fzyo82mv'', ''k1x9q0c7d'', ''1aaaaaaaa'', ''2aaaaaaaa'', ''3aaaaaaaa'', ''4aaaaaaaa'']
   \<and> map file_upload (files (state_after robot_state (handleFileChange robot_state (Some batch_a)))) =
       map file_upload (files robot_state) @ map pfile batch_a
   \<and> error (state_after robot_state (handleFileChange robot_state (Some batch_a))) = None"
proof -
  have n: "length (files robot_state) = 2" "length batch_a = 4" "length batch_b = 4"
    by (simp_all add: robot_state_def robot_files_def batch_a_def batch_b_def)
  have r: "list_all (\<lambda>p. \<not> isl (read_result p)) batch_a"
    by (simp add: batch_a_def)
  have 1: "handleFileChange robot_state (Some (batch_a @ batch_b)) =
       Inr (robot_state\<lparr>error := Some MSG_MAX_FILES\<rparr>)"
    using handleFileChange_capacity_then_reads [of robot_state "batch_a @ batch_b"]
    by (simp add: n)
  have app: "handleFileChange robot_state (Some batch_a) =
        Inr (robot_state\<lparr>files := files robot_state @
               map (\<lambda>p. \<lparr>id_upload = substr (random36 p) 2 9, file_upload = pfile p,
                         preview = object_url p,
                         base64 = index1 (split_js CHR '','' (projr (read_result p)))\<rparr>) batch_a,
             error := None\<rparr>)"
    using handleFileChange_capacity_then_reads [of robot_state batch_a] r
    by (simp add: n)
  have 2: "map id_upload (files (state_after robot_state (handleFileChange robot_state (Some batch_a)))) =
       [''4fzyo82mv'', ''k1x9q0c7d'', ''1aaaaaaaa'', ''2aaaaaaaa'', ''3aaaaaaaa'', ''4aaaaaaaa'']"
    by (simp add: app state_after_def)
       (simp add: robot_state_def robot_files_def batch_a_def readable_def substr_def)
  have 3: "map file_upload (files (state_after robot_state (handleFileChange robot_state (Some batch_a)))) =
       map file_upload (files robot_state) @ map pfile batch_a"
    by (simp add: app state_after_def comp_def)
  have 4: "error (state_after robot_state (handleFileChange robot_state (Some batch_a))) = None"
    by (simp add: app state_after_def)
  show ?thesis
    using 1 2 3 4 r by (simp add: n)
qed

text \<open>
  Claim C4 as stated fails where a read fails: the batch fits (0 + 1 \<open>\<le>\<close> 6), and yet its file
  is not in the store afterwards.
\<close>

theorem unreadable_batch_not_appended:
  "\<not> (length (files init) + length [unreadable] > 6)
   \<and> map file_upload (files (state_after init (handleFileChange init (Some [unreadable])))) \<noteq>
       map file_upload (files init) @ map pfile [unreadable]"
  by (simp add: init_def handleFileChange_def handleFileChange_begin_def
      handleFileChange_resume_def process_file_def unreadable_def state_after_def)

text \<open>
  Claim C5: the store holds at most six files at all times, every operation on it keeping
  that bound. This fails when two change events overlap. The capacity check of line 83 reads the
  \<^verbatim>\<open>files\<close> of the render in which the event arrives, while line 100 appends to the store as
  it is when the reads settle. Two batches of four files, the second selected before the
  reads of the first have settled, both pass the check against the empty store, and both
  are appended: the store then holds eight files.
\<close>

theorem overlapping_uploads_exceed_capacity:
  "handleFileChange_begin init (Some batch_a) = (init, Some batch_a)
   \<and> handleFileChange_begin init (Some batch_b) = (init, Some batch_b)
   \<and> length (files (state_after
         (state_after init (handleFileChange_resume init batch_a))
         (handleFileChange_resume (state_after init (handleFileChange_resume init batch_a))
            batch_b))) = 8"
proof -
  have a: "list_all (\<lambda>p. \<not> isl (read_result p)) batch_a"
    by (simp add: batch_a_def)
  have b: "list_all (\<lambda>p. \<not> isl (read_result p)) batch_b"
    by (simp add: batch_b_def)
  have la: "length batch_a = 4" and lb: "length batch_b = 4"
    by (simp_all add: batch_a_def batch_b_def)
  have e: "files init = []"
    by (simp add: init_def)
  show ?thesis
    by (simp add: handleFileChange_begin_def handleFileChange_resume_readable [OF a]
        handleFileChange_resume_readable [OF b] state_after_def la lb e)
qed

text \<open>
  What does hold: a change event handled to completion before the next event, and the
  removal of an entry, keep a store of at most six files within six.
\<close>

lemma handleFileChange_serial_capacity:
  assumes "length (files s) \<le> 6"
  shows "length (files (state_after s (handleFileChange s fl))) \<le> 6"
proof (cases "length (files s) + length (case fl of None \<Rightarrow> [] | Some b \<Rightarrow> b) > 6")
  case True
  then show ?thesis
    using assms by (simp add: handleFileChange_def handleFileChange_begin_def state_after_def)
next
  case False
  then have eq: "handleFileChange s fl =
      handleFileChange_resume s (case fl of None \<Rightarrow> [] | Some b \<Rightarrow> b)"
    by (simp add: handleFileChange_def handleFileChange_begin_def)
  show ?thesis
  proof (cases "list_all (\<lambda>p. \<not> isl (read_result p)) (case fl of None \<Rightarrow> [] | Some b \<Rightarrow> b)")
    case True
    then show ?thesis
      using False by (simp add: eq handleFileChange_resume_readable state_after_def)
  next
    case False
    then have "isl (handleFileChange_resume s (case fl of None \<Rightarrow> [] | Some b \<Rightarrow> b))"
      by (rule handleFileChange_resume_unreadable)
    then show ?thesis
      using assms
      by (cases "handleFileChange_resume s (case fl of None \<Rightarrow> [] | Some b \<Rightarrow> b)")
         (simp_all add: eq state_after_def)
  qed
qed

lemma removeFile_capacity: "length (files s) \<le> 6 \<Longrightarrow> length (files (removeFile s i)) \<le> 6"
  by (simp add: removeFile_def le_trans [OF length_filter_le])

text \<open>
  Claim C9, as the code has it. The id of an entry is the window of nine characters after
  the first two of \<^verbatim>\<open>Math.random().toString(36)\<close>; the code never compares it with another id.
  Ids that are distinct stay distinct when an entry is removed, and when a batch is
  appended whose drawn ids differ from one another and from every id in the store.
\<close>

theorem ids_distinct_when_fresh:
  assumes "distinct (map id_upload (files s))"
  shows "distinct (map id_upload (files (removeFile s i)))
     \<and> (distinct (map (\<lambda>p. substr (random36 p) 2 9) b)
          \<and> (\<forall>p\<in>set b. substr (random36 p) 2 9 \<notin> id_upload ` set (files s)) \<longrightarrow>
        distinct (map id_upload (files (state_after s (handleFileChange_resume s b))))
        \<and> distinct (map id_upload (files (state_after s (handleFileChange s (Some b))))))"
proof (intro conjI impI)
  show "distinct (map id_upload (files (removeFile s i)))"
    using assms by (simp add: removeFile_def distinct_map_filter)
next
  assume fresh: "distinct (map (\<lambda>p. substr (random36 p) 2 9) b)
          \<and> (\<forall>p\<in>set b. substr (random36 p) 2 9 \<notin> id_upload ` set (files s))"
  show r: "distinct (map id_upload (files (state_after s (handleFileChange_resume s b))))"
  proof (cases "list_all (\<lambda>p. \<not> isl (read_result p)) b")
    case True
    have "map id_upload (files (state_after s (handleFileChange_resume s b))) =
        map id_upload (files s) @ map (\<lambda>p. substr (random36 p) 2 9) b"
      by (simp add: handleFileChange_resume_readable [OF True] state_after_def comp_def)
    moreover have "set (map id_upload (files s)) \<inter>
        set (map (\<lambda>p. substr (random36 p) 2 9) b) = {}"
      using fresh by (auto simp: image_iff) fastforce
    ultimately show ?thesis
      using assms fresh by simp
  next
    case False
    then have "isl (handleFileChange_resume s b)"
      by (rule handleFileChange_resume_unreadable)
    then show ?thesis
      using assms by (cases "handleFileChange_resume s b") (simp_all add: state_after_def)
  qed
  show "distinct (map id_upload (files (state_after s (handleFileChange s (Some b)))))"
  proof (cases "length (files s) + length b > 6")
    case True
    then show ?thesis
      using assms by (simp add: handleFileChange_def handleFileChange_begin_def state_after_def)
  next
    case False
    then show ?thesis
      using r by (simp add: handleFileChange_within_capacity)
  qed
qed

theorem ids_distinct_when_fresh_witness:
  "distinct (map id_upload (files robot_state))
   \<and> distinct (map (\<lambda>p. substr (random36 p) 2 9) batch_a)
   \<and> list_all (\<lambda>p. substr (random36 p) 2 9 \<notin> id_upload ` set (files robot_state)) batch_a
   \<and> distinct (map id_upload (files (removeFile robot_state ''4fzyo82mv'')))
   \<and> distinct (map id_upload
        (files (state_after robot_state (handleFileChange_resume robot_state batch_a))))
   \<and> distinct (map id_upload
        (files (state_after robot_state (handleFileChange robot_state (Some batch_a)))))"
proof -
  have d: "distinct (map id_upload (files robot_state))"
    by (simp add: robot_state_def robot_files_def)
  have f: "distinct (map (\<lambda>p. substr (random36 p) 2 9) batch_a)"
    by (simp add: batch_a_def readable_def substr_def)
  have g: "list_all (\<lambda>p. substr (random36 p) 2 9 \<notin> id_upload ` set (files robot_state)) batch_a"
    by (simp add: batch_a_def readable_def substr_def robot_state_def robot_files_def)
  then have g': "\<forall>p\<in>set batch_a. substr (random36 p) 2 9 \<notin> id_upload ` set (files robot_state)"
    by (simp add: list_all_iff)
  show ?thesis
    using d f g g' ids_distinct_when_fresh [OF d, of "''4fzyo82mv''" batch_a]
    by blast
qed

text \<open>
  Claim C9 as stated fails: two files of one batch whose random strings share the nine
  characters of the window are stored under the same id.
\<close>

theorem twins_share_an_id:
  "\<not> distinct (map id_upload (files (state_after init (handleFileChange init (Some twins)))))"
  by (simp add: init_def handleFileChange_def handleFileChange_begin_def
      handleFileChange_resume_def process_file_def twins_def readable_def state_after_def
      substr_def)

section \<open>Results of the two generations\<close>

text \<open>
  Claim C6: a valid generation clears both results before its request is sent, and so a
  script that exists always belongs to an image that no later generation has replaced. The
  last part fails when a script request is still in flight as a new generation starts. The
  session: the first image is shown; the script request is sent (the script button is
  offered, since an image exists, no script does and none is being written); the generate
  button is enabled
  (\<^verbatim>\<open>isGenerating\<close> is false) and is pressed, which clears both results and sends the second
  image request; the script arrives and is stored although no image exists; the second image
  arrives, and the script written for the first image is shown with it.
\<close>

theorem stale_script_after_regeneration:
  "generatedImage first_image_shown = Some ''data:image/png;base64,aW1hZ2Ux''
   \<and> videoScript first_image_shown = None
   \<and> \<not> isGeneratingScript first_image_shown
   \<and> snd (generateVideoScript_begin None first_image_shown) =
       Some (script_request first_image_shown)
   \<and> \<not> isGenerating script_in_flight
   \<and> snd (generateImage_begin None script_in_flight) = Some (image_request script_in_flight)
   \<and> generatedImage regenerating = None
   \<and> videoScript regenerating = None
   \<and> videoScript script_settled = Some ''INT. CITY - DAY''
   \<and> generatedImage script_settled = None
   \<and> videoScript second_image_shown = Some ''INT. CITY - DAY''
   \<and> generatedImage second_image_shown = Some ''data:image/png;base64,bmV3ZXI=''"
proof -
  have s1: "scan_parts (response_parts image_reply) = Some ''data:image/png;base64,aW1hZ2Ux''"
    by (simp add: image_reply_def response_parts_def template_str_def)
  have run: "first_image_shown =
      generateImage_finally
        (robot_state\<lparr>isGenerating := True, generatedImage := None, videoScript := None,
           error := None, generatedImage := Some ''data:image/png;base64,aW1hZ2Ux''\<rparr>)"
    using generateImage_valid [OF robot_state_valid answering_construct, of image_reply]
    by (simp add: first_image_shown_def answering_def generateImage_resume_def s1)
  have f: "generatedImage first_image_shown = Some ''data:image/png;base64,aW1hZ2Ux''"
    "isGenerating first_image_shown = False"
    "description first_image_shown = ''a robot reading a book''"
    "videoScript first_image_shown = None"
    "\<not> isGeneratingScript first_image_shown"
    by (simp_all add: run generateImage_finally_def robot_state_def init_def)
  have t: "truthy (generatedImage first_image_shown)"
    by (simp add: f truthy_def)
  have a: "script_in_flight = first_image_shown\<lparr>isGeneratingScript := True\<rparr>"
    using t by (simp add: script_in_flight_def generateVideoScript_begin_def)
  have b: "snd (generateVideoScript_begin None first_image_shown) =
      Some (script_request first_image_shown)"
    using t by (simp add: generateVideoScript_begin_def)
  have c: "\<not> isGenerating script_in_flight"
    by (simp add: a f)
  have v: "description script_in_flight \<noteq> []"
    by (simp add: a f)
  have d: "snd (generateImage_begin None script_in_flight) = Some (image_request script_in_flight)"
    using v by (simp add: generateImage_begin_def)
  have e: "regenerating = script_in_flight\<lparr>isGenerating := True, generatedImage := None,
      videoScript := None, error := None\<rparr>"
    using v by (simp add: regenerating_def generateImage_begin_def)
  have e': "generatedImage regenerating = None" "videoScript regenerating = None"
    by (simp_all add: e)
  have g: "videoScript script_settled = Some ''INT. CITY - DAY''"
    "generatedImage script_settled = None"
    by (simp_all add: script_settled_def e generateVideoScript_resume_def
        generateVideoScript_finally_def text_reply_def or_else_def)
  have s2: "scan_parts (response_parts other_reply) = Some ''data:image/png;base64,bmV3ZXI=''"
    by (simp add: other_reply_def response_parts_def template_str_def)
  have h: "videoScript second_image_shown = Some ''INT. CITY - DAY''"
    "generatedImage second_image_shown = Some ''data:image/png;base64,bmV3ZXI=''"
    by (simp_all add: second_image_shown_def generateImage_resume_def s2
        generateImage_finally_def g)
  show ?thesis
    using f(1,4,5) b c d e' g h by blast
qed

text \<open>
  What does hold. A generation that passes validation clears both results before the
  request is sent. Run to completion, it leaves no script, and no image either when it ends
  with an error. And when no handler starts while another is in flight, a script never
  exists without an image: both generations keep that.
\<close>

lemma generateImage_begin_clears_results:
  assumes "description s \<noteq> [] \<or> files s \<noteq> []"
  shows "generatedImage (fst (generateImage_begin ctor s)) = None
     \<and> videoScript (fst (generateImage_begin ctor s)) = None"
  using assms
  by (cases ctor)
     (auto simp: generateImage_begin_def generateImage_finally_def generateImage_catch_def)

lemma generateImage_resume_keeps_script:
  "videoScript (generateImage_resume s outcome) = videoScript s"
  by (simp add: generateImage_resume_def generateImage_finally_def generateImage_catch_def
      split: sum.splits option.splits)

lemma generateImage_resume_failure_keeps_image:
  "error (generateImage_resume s outcome) \<noteq> error s \<Longrightarrow>
   generatedImage (generateImage_resume s outcome) = generatedImage s"
  by (auto simp: generateImage_resume_def generateImage_finally_def generateImage_catch_def
      split: sum.splits option.splits)

lemma generateImage_serial_clears:
  assumes "description s \<noteq> [] \<or> files s \<noteq> []"
  shows "videoScript (fst (generateImage svc s)) = None
     \<and> (error (fst (generateImage svc s)) \<noteq> None \<longrightarrow>
          generatedImage (fst (generateImage svc s)) = None)"
proof (cases "construct svc")
  case None
  let ?s1 = "s\<lparr>isGenerating := True, generatedImage := None, videoScript := None, error := None\<rparr>"
  have run: "fst (generateImage svc s) =
      generateImage_resume ?s1 (generateContent svc (image_request s))"
    using assms None by (simp add: generateImage_valid)
  have "videoScript (fst (generateImage svc s)) = None"
    by (simp add: run generateImage_resume_keeps_script)
  moreover have "generatedImage (fst (generateImage svc s)) = None"
    if "error (fst (generateImage svc s)) \<noteq> None"
    using that
      generateImage_resume_failure_keeps_image [of ?s1 "generateContent svc (image_request s)"]
    by (simp add: run)
  ultimately show ?thesis by blast
next
  case (Some err)
  then show ?thesis
    using assms
    by (auto simp: generateImage_def generateImage_begin_def generateImage_finally_def
        generateImage_catch_def)
qed

lemma serial_script_has_image:
  assumes "videoScript s \<noteq> None \<longrightarrow> generatedImage s \<noteq> None"
  shows "(videoScript (fst (generateImage svc s)) \<noteq> None \<longrightarrow>
            generatedImage (fst (generateImage svc s)) \<noteq> None)
     \<and> (videoScript (fst (generateVideoScript svc s)) \<noteq> None \<longrightarrow>
            generatedImage (fst (generateVideoScript svc s)) \<noteq> None)"
proof (intro conjI)
  show "videoScript (fst (generateImage svc s)) \<noteq> None \<longrightarrow>
            generatedImage (fst (generateImage svc s)) \<noteq> None"
  proof (cases "description s = [] \<and> files s = []")
    case True
    then show ?thesis
      using assms by (simp add: generateImage_def generateImage_begin_def)
  next
    case False
    then show ?thesis
      using generateImage_serial_clears [of s svc] by simp
  qed
  show "videoScript (fst (generateVideoScript svc s)) \<noteq> None \<longrightarrow>
            generatedImage (fst (generateVideoScript svc s)) \<noteq> None"
  proof (cases "truthy (generatedImage s)")
    case True
    then have "generatedImage s \<noteq> None"
      by (auto simp: truthy_def split: option.splits)
    then show ?thesis
      by (simp add: generateVideoScript_keeps_image)
  next
    case False
    then show ?thesis
      using assms by (simp add: generateVideoScript_falsy_image)
  qed
qed

section \<open>Script generation\<close>

text \<open>
  Claim C7. Without a generation result, \<^verbatim>\<open>generateVideoScript\<close> returns at once: the state
  is unchanged and no request is sent.
\<close>

theorem generateVideoScript_without_image:
  "generatedImage s = None \<Longrightarrow> generateVideoScript svc s = (s, [])"
  by (simp add: generateVideoScript_falsy_image truthy_def)

theorem generateVideoScript_without_image_witness:
  "generatedImage robot_state = None
   \<and> generateVideoScript (answering (text_reply (Some ''INT. CITY - DAY''))) robot_state =
       (robot_state, [])"
proof -
  have n: "generatedImage robot_state = None"
    by (simp add: robot_state_def init_def)
  show ?thesis
    using n generateVideoScript_without_image [OF n] by simp
qed

text \<open>
  Claim C8. With a generation result and a constructed client, \<^verbatim>\<open>generateVideoScript\<close> stores
  the text of the service's answer as it is when that text is not empty, and the
  placeholder when the answer has no text or an empty one. When the call fails, the script
  error message is set and the script is left as it was: a script that was unset stays
  unset. (The script button is offered only while no script exists.)
\<close>

theorem generateVideoScript_stores_text:
  assumes "truthy (generatedImage s)" and "construct svc = None"
  shows "case generateContent svc (script_request s) of
           Inr r \<Rightarrow>
             (case text_resp r of
                Some t \<Rightarrow>
                  videoScript (fst (generateVideoScript svc s)) =
                    Some (if t = [] then MSG_NO_SCRIPT else t)
              | None \<Rightarrow> videoScript (fst (generateVideoScript svc s)) = Some MSG_NO_SCRIPT)
         | Inl e \<Rightarrow>
             error (fst (generateVideoScript svc s)) = Some MSG_SCRIPT_ERROR \<and>
             videoScript (fst (generateVideoScript svc s)) = videoScript s"
  by (simp add: generateVideoScript_ready [OF assms] generateVideoScript_resume_def
      generateVideoScript_finally_def generateVideoScript_catch_def or_else_def
      split: sum.splits option.splits)

theorem generateVideoScript_stores_text_witness:
  "truthy (generatedImage pictured_state)
   \<and> construct (answering (text_reply (Some ''INT. CITY - DAY''))) = None
   \<and> videoScript
        (fst (generateVideoScript (answering (text_reply (Some ''INT. CITY - DAY''))) pictured_state))
       = Some ''INT. CITY - DAY''
   \<and> videoScript (fst (generateVideoScript (answering (text_reply None)) pictured_state))
       = Some MSG_NO_SCRIPT
   \<and> videoScript (fst (generateVideoScript (answering (text_reply (Some []))) pictured_state))
       = Some MSG_NO_SCRIPT
   \<and> error
        (fst (generateVideoScript (failing \<lparr>message = Some ''fetch failed''\<rparr>) pictured_state))
       = Some MSG_SCRIPT_ERROR
   \<and> videoScript
        (fst (generateVideoScript (failing \<lparr>message = Some ''fetch failed''\<rparr>) pictured_state))
       = None"
proof -
  have t: "truthy (generatedImage pictured_state)"
    by (simp add: pictured_state_def truthy_def)
  note c = answering_construct failing_construct
  have n: "videoScript pictured_state = None"
    by (simp add: pictured_state_def robot_state_def init_def)
  show ?thesis
    using t c n
      generateVideoScript_stores_text [OF t c(1), of "text_reply (Some ''INT. CITY - DAY'')"]
      generateVideoScript_stores_text [OF t c(1), of "text_reply None"]
      generateVideoScript_stores_text [OF t c(1), of "text_reply (Some [])"]
      generateVideoScript_stores_text [OF t c(2), of "\<lparr>message = Some ''fetch failed''\<rparr>"]
    by (simp add: answering_def failing_def text_reply_def)
qed

section \<open>Selections outside the preset tables\<close>

text \<open>
  Claim C10. The selected scene and style are looked up with \<^verbatim>\<open>find\<close>, and a missing entry
  gives the empty string: an id that is in no row of the table contributes an empty prompt
  fragment (and an empty scene label) to the instruction, which is built all the same. With
  any selection, a valid \<^verbatim>\<open>generateImage\<close> reaches its request, and \<^verbatim>\<open>generateVideoScript\<close>
  with an image reaches its own.
\<close>

theorem prompts_with_unknown_ids:
  "(selectedScene s \<notin> id_preset ` set SCENES \<longrightarrow>
      scene_prompt (selectedScene s) = [] \<and> scene_label (selectedScene s) = [] \<and>
      script_prompt s =
        ''Based on the generated image and the original description '' @ [CHR 0x22] @
        description s @ [CHR 0x22] @ '' in the  scene, '' @ [CHR 0x0A] @
        ''      generate a detailed 5-second video script. '' @ [CHR 0x0A] @
        ''      The script should include:'' @ [CHR 0x0A] @
        ''      1. Scene Description (Visuals)'' @ [CHR 0x0A] @
        ''      2. Camera Movement'' @ [CHR 0x0A] @
        ''      3. Lighting & Atmosphere'' @ [CHR 0x0A] @
        ''      4. A brief '' @ [CHR 0x22] @ ''Action'' @ [CHR 0x22] @
        '' that happens in these 5 seconds.'' @ [CHR 0x0A] @ ''      '' @ [CHR 0x0A] @
        ''      Format the output in professional cinematic script style using Markdown. Use Chinese.'')
   \<and> (selectedStyle s \<notin> id_preset ` set STYLES \<longrightarrow> style_prompt (selectedStyle s) = [])
   \<and> (selectedScene s \<notin> id_preset ` set SCENES \<and> selectedStyle s \<notin> id_preset ` set STYLES \<longrightarrow>
      image_prompt s =
        ''Create a new creative image based on the following description: '' @ description s @
        ''. '' @ [CHR 0x0A] @ ''      The scene should be . '' @ [CHR 0x0A] @
        ''      The overall style should be . '' @ [CHR 0x0A] @
        ''      If reference images are provided, blend their visual elements, subjects, or color palettes into this new creation.'')
   \<and> (description s \<noteq> [] \<or> files s \<noteq> [] \<longrightarrow>
        snd (generateImage_begin None s) = Some (image_request s))
   \<and> (truthy (generatedImage s) \<longrightarrow>
        snd (generateVideoScript_begin None s) = Some (script_request s))
   \<and> contents (script_request s) = Prompt (script_prompt s)
   \<and> hd (image_parts s) = \<lparr>text_part = Some (image_prompt s), inlineData = None\<rparr>"
proof -
  have scene: "scene_prompt (selectedScene s) = []" "scene_label (selectedScene s) = []"
    if "selectedScene s \<notin> id_preset ` set SCENES"
    using find_None_image [OF that] by (simp_all add: scene_prompt_def scene_label_def)
  have style: "style_prompt (selectedStyle s) = []"
    if "selectedStyle s \<notin> id_preset ` set STYLES"
    using find_None_image [OF that] by (simp add: style_prompt_def)
  have script: "script_prompt s =
        ''Based on the generated image and the original description '' @ [CHR 0x22] @
        description s @ [CHR 0x22] @ '' in the  scene, '' @ [CHR 0x0A] @
        ''      generate a detailed 5-second video script. '' @ [CHR 0x0A] @
        ''      The script should include:'' @ [CHR 0x0A] @
        ''      1. Scene Description (Visuals)'' @ [CHR 0x0A] @
        ''      2. Camera Movement'' @ [CHR 0x0A] @
        ''      3. Lighting & Atmosphere'' @ [CHR 0x0A] @
        ''      4. A brief '' @ [CHR 0x22] @ ''Action'' @ [CHR 0x22] @
        '' that happens in these 5 seconds.'' @ [CHR 0x0A] @ ''      '' @ [CHR 0x0A] @
        ''      Format the output in professional cinematic script style using Markdown. Use Chinese.''"
    if "selectedScene s \<notin> id_preset ` set SCENES"
    by (simp add: script_prompt_def scene(2) [OF that])
  have image: "image_prompt s =
        ''Create a new creative image based on the following description: '' @ description s @
        ''. '' @ [CHR 0x0A] @ ''      The scene should be . '' @ [CHR 0x0A] @
        ''      The overall style should be . '' @ [CHR 0x0A] @
        ''      If reference images are provided, blend their visual elements, subjects, or color palettes into this new creation.''"
    if "selectedScene s \<notin> id_preset ` set SCENES" "selectedStyle s \<notin> id_preset ` set STYLES"
    by (simp add: image_prompt_def scene(1) [OF that(1)] style [OF that(2)])
  have sent: "snd (generateImage_begin None s) = Some (image_request s)"
    if "description s \<noteq> [] \<or> files s \<noteq> []"
    using that by (auto simp: generateImage_begin_def)
  have asked: "snd (generateVideoScript_begin None s) = Some (script_request s)"
    if "truthy (generatedImage s)"
    using that by (simp add: generateVideoScript_begin_def)
  have shape: "contents (script_request s) = Prompt (script_prompt s)"
    "hd (image_parts s) = \<lparr>text_part = Some (image_prompt s), inlineData = None\<rparr>"
    by (simp_all add: script_request_def image_parts_def)
  show ?thesis
    using scene style script image sent asked shape by blast
qed

theorem prompts_with_unknown_ids_witness:
  "selectedScene unlisted_state \<notin> id_preset ` set SCENES
   \<and> selectedStyle unlisted_state \<notin> id_preset ` set STYLES
   \<and> description unlisted_state \<noteq> []
   \<and> truthy (generatedImage unlisted_state)
   \<and> scene_prompt (selectedScene unlisted_state) = []
   \<and> scene_label (selectedScene unlisted_state) = []
   \<and> style_prompt (selectedStyle unlisted_state) = []
   \<and> image_prompt unlisted_state =
        ''Create a new creative image based on the following description: '' @
        ''a robot reading a book'' @
        ''. '' @ [CHR 0x0A] @ ''      The scene should be . '' @ [CHR 0x0A] @
        ''      The overall style should be . '' @ [CHR 0x0A] @
        ''      If reference images are provided, blend their visual elements, subjects, or color palettes into this new creation.''
   \<and> snd (generateImage_begin None unlisted_state) = Some (image_request unlisted_state)
   \<and> snd (generateVideoScript_begin None unlisted_state) = Some (script_request unlisted_state)"
proof -
  have sel: "selectedScene unlisted_state = ''volcano''" "selectedStyle unlisted_state = []"
    "description unlisted_state = ''a robot reading a book''"
    "generatedImage unlisted_state = Some ''data:image/png;base64,aW1hZ2Ux''"
    by (simp_all add: unlisted_state_def robot_state_def)
  have a: "selectedScene unlisted_state \<notin> id_preset ` set SCENES"
    by (simp add: sel SCENES_def)
  have b: "selectedStyle unlisted_state \<notin> id_preset ` set STYLES"
    by (simp add: sel STYLES_def)
  have c: "description unlisted_state \<noteq> []"
    by (simp add: sel)
  have d: "truthy (generatedImage unlisted_state)"
    by (simp add: sel truthy_def)
  note t = prompts_with_unknown_ids [of unlisted_state]
  have e: "image_prompt unlisted_state =
        ''Create a new creative image based on the following description: '' @
        ''a robot reading a book'' @
        ''. '' @ [CHR 0x0A] @ ''      The scene should be . '' @ [CHR 0x0A] @
        ''      The overall style should be . '' @ [CHR 0x0A] @
        ''      If reference images are provided, blend their visual elements, subjects, or color palettes into this new creation.''"
    using t a b sel(3) by metis
  show ?thesis
    using t a b c d e by blast
qed

end
